theory Spec2Isabelle
  imports Complex_Main "HOL-Library.AList"
begin

section \<open>Python values\<close>

text \<open>
  The values that flow through the three source files: JSON documents read by
  \<^verbatim>\<open>json.load\<close>, the configuration dictionary and the result dictionaries of the
  solvers. A Python \<^verbatim>\<open>dict\<close> with string keys is an association list in insertion
  order. A Python \<^verbatim>\<open>float\<close> is a real number here: binary rounding of floats is not
  modelled.
\<close>

datatype pyval =
    PNone
  | PBool bool
  | PInt int
  | PFloat real
  | PStr string
  | PList "pyval list"
  | PDict "(string \<times> pyval) list"

type_synonym pydict = "(string \<times> pyval) list"


text \<open>Truthiness of an optional string, as tested by \<^verbatim>\<open>if not url\<close> and
  \<^verbatim>\<open>if proxy\<close>: \<^verbatim>\<open>None\<close> and the empty string are false.\<close>

definition truthy :: "string option \<Rightarrow> bool" where
  "truthy s = (case s of None \<Rightarrow> False | Some x \<Rightarrow> x \<noteq> [])"

text \<open>\<^verbatim>\<open>str.isspace\<close> on the code points below 256, and \<^verbatim>\<open>str.strip()\<close>.\<close>

definition py_isspace :: "char \<Rightarrow> bool" where
  "py_isspace c = (of_char c \<in> {9, 10, 11, 12, 13, 28, 29, 30, 31, 32, 133, 160 :: nat})"

definition py_strip :: "string \<Rightarrow> string" where
  "py_strip s = rev (dropWhile py_isspace (rev (dropWhile py_isspace s)))"

text \<open>\<^verbatim>\<open>s.split(sep)\<close> for a one-character separator: the empty string gives one empty
  field, and \<open>n\<close> separators give \<open>n + 1\<close> fields.\<close>

fun py_split :: "char \<Rightarrow> string \<Rightarrow> string list" where
  "py_split sep [] = [Nil]"
| "py_split sep (c # cs) =
     (if c = sep then [] # py_split sep cs
      else (case py_split sep cs of
              [] \<Rightarrow> [c # Nil]
            | w # ws \<Rightarrow> (c # w) # ws))"

text \<open>\<^verbatim>\<open>round(x, 3)\<close>: to the nearest multiple of one thousandth, a tie going to the
  even one.\<close>

definition py_round3 :: "real \<Rightarrow> real" where
  "py_round3 x =
     (let y = x * 1000; f = \<lfloor>y\<rfloor>; d = y - of_int f
      in of_int (if d < 1 / 2 then f
                 else if 1 / 2 < d then f + 1
                 else if even f then f else f + 1) / 1000)"

text \<open>Exceptions. Every exception of the model is an instance of Python's
  \<^verbatim>\<open>Exception\<close>, so that \<^verbatim>\<open>except Exception\<close> and a bare \<^verbatim>\<open>except\<close> catch the same
  ones; the argument is what \<^verbatim>\<open>str(e)\<close> returns. \<open>EngineError\<close> stands for the errors
  raised by the browser automation engine, \<open>OSError\<close> for those of the file system.\<close>

datatype exn =
    Exception string
  | ValueError string
  | FileNotFoundError string
  | OSError string
  | KeyError string
  | TypeError string
  | UnicodeEncodeError string
  | EngineError string

fun str_of :: "exn \<Rightarrow> string" where
  "str_of (Exception m) = m"
| "str_of (ValueError m) = m"
| "str_of (FileNotFoundError m) = m"
| "str_of (OSError m) = m"
| "str_of (KeyError m) = m"
| "str_of (TypeError m) = m"
| "str_of (UnicodeEncodeError m) = m"
| "str_of (EngineError m) = m"

text \<open>What a call does: it returns, it raises, or it waits for ever
  (\<^verbatim>\<open>await queue.get()\<close> on an empty queue that nobody fills).\<close>

datatype 'a outcome = Returns 'a | Raises exn | Blocks

section \<open>Configuration loader (app.py)\<close>











section \<open>Legacy launcher flags (backup.py, parse_args)\<close>


record args =
  ns_headless :: bool
  ns_useragent :: "string option"
  ns_browser_type :: string
  ns_thread :: int
  ns_proxy :: bool
  ns_host :: string
  ns_port :: string



section \<open>The outside world of one solve call\<close>

text \<open>A pool slot is a pair of a 1-based index and a browser handle; the pool is an
  \<^verbatim>\<open>asyncio.Queue\<close>: \<^verbatim>\<open>get\<close> takes the first slot, \<^verbatim>\<open>put\<close> appends one. A browsing
  context is known by the proxy settings it was created with.\<close>

type_synonym slot = "nat \<times> nat"
type_synonym proxy_settings = "(string \<times> string) list"
type_synonym browsing_context = "proxy_settings option"

text \<open>The proxy list file: it does not exist (the text is that of the
  \<^verbatim>\<open>FileNotFoundError\<close> that \<^verbatim>\<open>open\<close> raises), it exists and cannot be read, or its
  lines.\<close>

datatype file_state = Missing string | Unreadable exn | Readable "string list"

text \<open>Everything a solve call asks of its environment, one field for each call of the
  source: the file system, \<^verbatim>\<open>random.choice\<close>, the browser engine (\<open>None\<close>: the call
  succeeds; an exception: it raises) and the readings of \<^verbatim>\<open>time.time()\<close>. The calls made
  in a loop are indexed by the attempt.\<close>

record env =
  proxy_file :: file_state
  random_index :: nat
  new_context_error :: "proxy_settings option \<Rightarrow> exn option"
  new_page_error :: "exn option"
  route_error :: "string \<Rightarrow> string \<Rightarrow> exn option"
  goto_error :: "string \<Rightarrow> exn option"
  wait_for_selector_error :: "exn option"
  iframe_count :: "exn + nat"
  iframe_click_error :: "exn option"
  widget_click_error :: "exn option"
  js_click_error :: "exn option"
  evaluate_token :: "nat \<Rightarrow> exn + string option"
  eval_on_selector_error :: "exn option"
  input_value :: "nat \<Rightarrow> exn + string"
  locator_click_error :: "nat \<Rightarrow> exn option"
  close_error_at :: "nat \<Rightarrow> exn option"
  close_error :: "exn option"
  time_start :: real
  time_solved :: "nat \<Rightarrow> real"
  time_failed :: real

definition browser_new_context :: "env \<Rightarrow> proxy_settings option \<Rightarrow> exn + browsing_context" where
  "browser_new_context e p = (case new_context_error e p of Some x \<Rightarrow> Inl x | None \<Rightarrow> Inr p)"

text \<open>\<^verbatim>\<open>[line.strip() for line in proxy_file if line.strip()]\<close>\<close>

definition read_proxies :: "string list \<Rightarrow> string list" where
  "read_proxies ls = map py_strip (filter (\<lambda>l. py_strip l \<noteq> []) ls)"

text \<open>\<^verbatim>\<open>random.choice(proxies) if proxies else None\<close>\<close>

definition choose_proxy :: "env \<Rightarrow> string list \<Rightarrow> string option" where
  "choose_proxy e proxies =
     (if proxies \<noteq> [] then Some (proxies ! (random_index e mod length proxies)) else None)"

text \<open>The proxy settings built from the fields of a line with five fields.\<close>

definition authenticated_proxy :: "string list \<Rightarrow> proxy_settings" where
  "authenticated_proxy parts =
     [(''server'', parts ! 0 @ ''://'' @ parts ! 1 @ '':'' @ parts ! 2),
      (''username'', parts ! 3),
      (''password'', parts ! 4)]"

text \<open>\<^verbatim>\<open>url + "/" if not url.endswith("/") else url\<close>\<close>

definition url_with_slash :: "string \<Rightarrow> string" where
  "url_with_slash url = (if url \<noteq> [] \<and> last url = CHR ''/'' then url else url @ ''/'')"

definition error_result :: "exn \<Rightarrow> real \<Rightarrow> pydict" where
  "error_result x elapsed_time =
     [(''status'', PStr ''error''), (''error'', PStr (str_of x)), (''time'', PFloat elapsed_time)]"

definition success_result :: "string \<Rightarrow> real \<Rightarrow> pydict" where
  "success_result token elapsed_time =
     [(''status'', PStr ''success''), (''token'', PStr token), (''time'', PFloat elapsed_time)]"

definition required_error :: pydict where
  "required_error =
     [(''status'', PStr ''error''), (''error'', PStr ''Both 'url' and 'sitekey' are required'')]"

definition str_or_empty :: "string option \<Rightarrow> string" where
  "str_or_empty s = (case s of None \<Rightarrow> [] | Some x \<Rightarrow> x)"

section \<open>Solver Core (utils/turnstile.py)\<close>

text \<open>The fields of a \<^verbatim>\<open>TurnstileSolver\<close>, and with them the browsing contexts that its
  browsers hold open (created and not closed).\<close>

record solver =
  headless :: bool
  thread_count :: int
  browser_type :: string
  proxy_support :: bool
  useragent :: string
  browser_pool :: "slot list"
  open_contexts :: "browsing_context list"

text \<open>\<^verbatim>\<open>_setup_context\<close>: the context that the browser returns, or the exception raised on
  the way.\<close>

definition setup_context :: "solver \<Rightarrow> env \<Rightarrow> exn + browsing_context" where
  "setup_context slv e =
     (if \<not> proxy_support slv then browser_new_context e None
      else
        (case proxy_file e of
           Missing m \<Rightarrow> browser_new_context e None
         | Unreadable x \<Rightarrow> Inl x
         | Readable ls \<Rightarrow>
             (let proxy = choose_proxy e (read_proxies ls)
              in if truthy proxy then
                   (let parts = py_split CHR '':'' (str_or_empty proxy)
                    in if length parts = 3 then
                         browser_new_context e (Some [(''server'', str_or_empty proxy)])
                       else if length parts = 5 then
                         browser_new_context e (Some (authenticated_proxy parts))
                       else browser_new_context e None)
                 else browser_new_context e None)))"

text \<open>The widget element of the synthetic page.\<close>

definition turnstile_div :: "string \<Rightarrow> string option \<Rightarrow> string option \<Rightarrow> string" where
  "turnstile_div sitekey action cdata =
     ''<div class=\"cf-turnstile\" data-sitekey=\"'' @ sitekey @ ''\"''
     @ (if truthy action then '' data-action=\"'' @ str_or_empty action @ ''\"'' else [])
     @ (if truthy cdata then '' data-cdata=\"'' @ str_or_empty cdata @ ''\"'' else [])
     @ '' style=\"transform: scale(1.2);\"></div>''"

text \<open>The click on the widget: the iframe or the element, and the script-level click when
  either raises (a bare \<^verbatim>\<open>except\<close>); an exception of the script-level click is not
  caught.\<close>

definition click_turnstile :: "env \<Rightarrow> exn option" where
  "click_turnstile e =
     (let direct =
            (case iframe_count e of
               Inl x \<Rightarrow> Some x
             | Inr n \<Rightarrow> if 0 < n then iframe_click_error e else widget_click_error e)
      in case direct of None \<Rightarrow> None | Some x \<Rightarrow> js_click_error e)"

text \<open>The polling loop \<^verbatim>\<open>for attempt in range(30)\<close> over the attempts that are left. A
  token that is \<^verbatim>\<open>null\<close>, empty or blank, and an exception of the evaluation, lead to the
  next attempt after a sleep; the click repeated on every fifth attempt has its exceptions
  discarded.\<close>

fun wait_for_token :: "env \<Rightarrow> real \<Rightarrow> nat list \<Rightarrow> pydict option" where
  "wait_for_token e start_time [] = None"
| "wait_for_token e start_time (attempt # rest) =
     (case evaluate_token e attempt of
        Inl x \<Rightarrow> wait_for_token e start_time rest
      | Inr token \<Rightarrow>
          if truthy token \<and> py_strip (str_or_empty token) \<noteq> [] then
            Some (success_result (str_or_empty token)
                    (py_round3 (time_solved e attempt - start_time)))
          else wait_for_token e start_time rest)"

text \<open>\<^verbatim>\<open>_solve_on_page\<close>\<close>

definition solve_on_page ::
  "env \<Rightarrow> string \<Rightarrow> string \<Rightarrow> string option \<Rightarrow> string option \<Rightarrow> real \<Rightarrow> exn + pydict" where
  "solve_on_page e url sitekey action cdata start_time =
     (case route_error e (url_with_slash url) (turnstile_div sitekey action cdata) of
        Some x \<Rightarrow> Inl x
      | None \<Rightarrow>
     (case goto_error e (url_with_slash url) of
        Some x \<Rightarrow> Inl x
      | None \<Rightarrow>
     (case wait_for_selector_error e of
        Some x \<Rightarrow> Inl (Exception ''Turnstile failed to load'')
      | None \<Rightarrow>
     (case click_turnstile e of
        Some x \<Rightarrow> Inl x
      | None \<Rightarrow>
     (case wait_for_token e start_time [0..<30] of
        Some result \<Rightarrow> Inr result
      | None \<Rightarrow> Inl (Exception ''Failed to get Turnstile token after 30 attempts''))))))"

text \<open>The \<^verbatim>\<open>except Exception\<close> branch of \<^verbatim>\<open>solve\<close>: the slot goes back to the pool and
  an error result with the elapsed time is returned; the context is left as it is.\<close>

definition solve_failed :: "env \<Rightarrow> real \<Rightarrow> slot \<Rightarrow> exn \<Rightarrow> solver \<Rightarrow> pydict outcome \<times> solver" where
  "solve_failed e start_time sl x slv =
     (Returns (error_result x (py_round3 (time_failed e - start_time))),
      slv\<lparr>browser_pool := browser_pool slv @ [sl]\<rparr>)"

text \<open>\<^verbatim>\<open>solve\<close>\<close>

definition solve ::
  "solver \<Rightarrow> env \<Rightarrow> string option \<Rightarrow> string option \<Rightarrow> string option \<Rightarrow> string option
     \<Rightarrow> pydict outcome \<times> solver" where
  "solve slv e url sitekey action cdata =
     (if \<not> truthy url \<or> \<not> truthy sitekey then (Returns required_error, slv)
      else
        (let start_time = time_start e
         in case browser_pool slv of
              [] \<Rightarrow> (Blocks, slv)
            | sl # rest \<Rightarrow>
                (let s1 = slv\<lparr>browser_pool := rest\<rparr>
                 in case setup_context slv e of
                      Inl x \<Rightarrow> solve_failed e start_time sl x s1
                    | Inr ctx \<Rightarrow>
                        (let s2 = s1\<lparr>open_contexts := ctx # open_contexts s1\<rparr>
                         in case new_page_error e of
                              Some x \<Rightarrow> solve_failed e start_time sl x s2
                            | None \<Rightarrow>
                        (case solve_on_page e (str_or_empty url) (str_or_empty sitekey)
                                action cdata start_time of
                           Inl x \<Rightarrow> solve_failed e start_time sl x s2
                         | Inr result \<Rightarrow>
                        (case close_error e of
                           Some x \<Rightarrow> solve_failed e start_time sl x s2
                         | None \<Rightarrow>
                             (Returns result,
                              s2\<lparr>open_contexts := remove1 ctx (open_contexts s2),
                                 browser_pool := browser_pool s2 @ [sl]\<rparr>)))))))"

text \<open>\<^verbatim>\<open>get_status\<close>; the argument is the value of the environment variable
  \<^verbatim>\<open>DISPLAY\<close>, when it is set.\<close>

definition get_status :: "solver \<Rightarrow> string option \<Rightarrow> pydict" where
  "get_status slv display =
     [(''initialized'', PBool (browser_pool slv \<noteq> [])),
      (''thread_count'', PInt (thread_count slv)),
      (''browser_type'', PStr (browser_type slv)),
      (''headless'', PBool (headless slv)),
      (''has_display'', PBool (truthy display)),
      (''user_agent'',
         PStr (if 50 < length (useragent slv) then take 50 (useragent slv) @ ''...''
               else useragent slv)),
      (''pool_size'', PInt (int (length (browser_pool slv))))]"

text \<open>Solve calls made one after the other on the same solver, each in its own
  environment.\<close>

type_synonym solve_call = "env \<times> string option \<times> string option \<times> string option \<times> string option"

definition solve_calls :: "solver \<Rightarrow> solve_call list \<Rightarrow> solver" where
  "solve_calls slv calls =
     foldl (\<lambda>s (e, url, sitekey, action, cdata). snd (solve s e url sitekey action cdata))
       slv calls"

section \<open>Primary host (app.py)\<close>

text \<open>\<^verbatim>\<open>d[k]\<close>, and the truth value of a Python value.\<close>

definition subscript :: "pydict \<Rightarrow> string \<Rightarrow> exn + pyval" where
  "subscript d k =
     (case map_of d k of
        None \<Rightarrow> Inl (KeyError ([CHR 0x27] @ k @ [CHR 0x27]))
      | Some v \<Rightarrow> Inr v)"

fun py_true :: "pyval \<Rightarrow> bool" where
  "py_true PNone = False"
| "py_true (PBool b) = b"
| "py_true (PInt i) = (i \<noteq> 0)"
| "py_true (PFloat x) = (x \<noteq> 0)"
| "py_true (PStr s) = (s \<noteq> [])"
| "py_true (PList xs) = (xs \<noteq> [])"
| "py_true (PDict kvs) = (kvs \<noteq> [])"

text \<open>\<^verbatim>\<open>health_check\<close>; the global \<^verbatim>\<open>solver\<close> is \<open>None\<close> until the lifespan hook has
  constructed it.\<close>

definition health_check :: "solver option \<Rightarrow> string option \<Rightarrow> exn + pydict" where
  "health_check slv display =
     (case slv of
        None \<Rightarrow> Inr [(''status'', PStr ''down''), (''message'', PStr ''Solver not initialized'')]
      | Some s \<Rightarrow>
          (let status = get_status s display
           in case subscript status ''initialized'' of
                Inl x \<Rightarrow> Inl x
              | Inr i \<Rightarrow>
                  if py_true i then
                    (case subscript status ''pool_size'' of
                       Inl x \<Rightarrow> Inl x
                     | Inr n \<Rightarrow> Inr [(''status'', PStr ''up''), (''pool_size'', n)])
                  else Inr [(''status'', PStr ''down''), (''message'', PStr ''Solver pool empty'')]))"

section \<open>Legacy server (backup.py)\<close>

record server =
  srv_browser_type :: string
  srv_headless :: bool
  srv_useragent :: "string option"
  srv_thread_count :: int
  srv_proxy_support :: bool
  srv_browser_pool :: "slot list"
  srv_open_contexts :: "browsing_context list"

text \<open>The creation of the browsing context in \<^verbatim>\<open>_solve_turnstile\<close> (from
  \<^verbatim>\<open>if self.proxy_support\<close> to the last \<^verbatim>\<open>browser.new_context()\<close>). The file is
  opened without a test that it exists.\<close>

definition make_context :: "server \<Rightarrow> env \<Rightarrow> exn + browsing_context" where
  "make_context srv e =
     (if srv_proxy_support srv then
        (case proxy_file e of
           Missing m \<Rightarrow> Inl (FileNotFoundError m)
         | Unreadable x \<Rightarrow> Inl x
         | Readable ls \<Rightarrow>
             (let proxy = choose_proxy e (read_proxies ls)
              in if truthy proxy then
                   (let parts = py_split CHR '':'' (str_or_empty proxy)
                    in if length parts = 3 then
                         browser_new_context e (Some [(''server'', str_or_empty proxy)])
                       else if length parts = 5 then
                         browser_new_context e (Some (authenticated_proxy parts))
                       else Inl (ValueError ''Invalid proxy format''))
                 else browser_new_context e None))
      else browser_new_context e None)"

definition legacy_div :: "string \<Rightarrow> string option \<Rightarrow> string option \<Rightarrow> string" where
  "legacy_div sitekey action cdata =
     ''<div class=\"cf-turnstile\" style=\"background: white;\" data-sitekey=\"'' @ sitekey @ ''\"''
     @ (if truthy action then '' data-action=\"'' @ str_or_empty action @ ''\"'' else [])
     @ (if truthy cdata then '' data-cdata=\"'' @ str_or_empty cdata @ ''\"'' else [])
     @ ''></div>''"

text \<open>The polling loop \<^verbatim>\<open>for attempt in range(15)\<close> over the attempts that are left:
  the attempt at which a token was read and the context closed, with the token, or the
  exception that leaves the loop. An exception of the read, of the click or of
  \<^verbatim>\<open>context.close()\<close> is caught inside the loop: before attempt 14 the loop goes on
  after a sleep, at attempt 14 the timeout is raised.\<close>

fun poll_token :: "env \<Rightarrow> nat list \<Rightarrow> exn + nat \<times> string" where
  "poll_token e [] = Inl (Exception ''Failed to get Turnstile token after 15 attempts'')"
| "poll_token e (attempt # rest) =
     (case input_value e attempt of
        Inl x \<Rightarrow>
          if attempt < 14 then poll_token e rest
          else Inl (Exception ''Failed to get Turnstile token after 15 attempts'')
      | Inr turnstile_check \<Rightarrow>
          if turnstile_check = [] then
            (case locator_click_error e attempt of
               None \<Rightarrow> poll_token e rest
             | Some x \<Rightarrow>
                 if attempt < 14 then poll_token e rest
                 else Inl (Exception ''Failed to get Turnstile token after 15 attempts''))
          else
            (case close_error_at e attempt of
               None \<Rightarrow> Inr (attempt, turnstile_check)
             | Some x \<Rightarrow>
                 if attempt < 14 then poll_token e rest
                 else Inl (Exception ''Failed to get Turnstile token after 15 attempts'')))"

text \<open>The body of the \<^verbatim>\<open>try\<close> statement of \<^verbatim>\<open>_solve_turnstile\<close>.\<close>

definition guarded_attempt ::
  "env \<Rightarrow> string \<Rightarrow> string \<Rightarrow> string option \<Rightarrow> string option \<Rightarrow> exn + nat \<times> string" where
  "guarded_attempt e url sitekey action cdata =
     (case route_error e (url_with_slash url) (legacy_div sitekey action cdata) of
        Some x \<Rightarrow> Inl x
      | None \<Rightarrow>
     (case goto_error e (url_with_slash url) of
        Some x \<Rightarrow> Inl x
      | None \<Rightarrow>
     (case eval_on_selector_error e of
        Some x \<Rightarrow> Inl x
      | None \<Rightarrow> poll_token e [0..<15])))"

text \<open>\<^verbatim>\<open>_solve_turnstile\<close>. The slot is taken, the context created and the page opened
  before the \<^verbatim>\<open>try\<close> statement: an exception there leaves the function as it is. The
  handler of the \<^verbatim>\<open>try\<close> statement closes the context and puts the slot back; an
  exception of that \<^verbatim>\<open>context.close()\<close> leaves the function too.\<close>

definition solve_turnstile ::
  "server \<Rightarrow> env \<Rightarrow> string \<Rightarrow> string \<Rightarrow> string option \<Rightarrow> string option
     \<Rightarrow> pydict outcome \<times> server" where
  "solve_turnstile srv e url sitekey action cdata =
     (case srv_browser_pool srv of
        [] \<Rightarrow> (Blocks, srv)
      | sl # rest \<Rightarrow>
          (let s1 = srv\<lparr>srv_browser_pool := rest\<rparr>
           in case make_context srv e of
                Inl x \<Rightarrow> (Raises x, s1)
              | Inr ctx \<Rightarrow>
                  (let s2 = s1\<lparr>srv_open_contexts := ctx # srv_open_contexts s1\<rparr>;
                       released = s2\<lparr>srv_open_contexts := remove1 ctx (srv_open_contexts s2),
                                     srv_browser_pool := srv_browser_pool s2 @ [sl]\<rparr>
                   in case new_page_error e of
                        Some x \<Rightarrow> (Raises x, s2)
                      | None \<Rightarrow>
                          (let start_time = time_start e
                           in case guarded_attempt e url sitekey action cdata of
                                Inr (attempt, token) \<Rightarrow>
                                  (Returns (success_result token
                                              (py_round3 (time_solved e attempt - start_time))),
                                   released)
                              | Inl x \<Rightarrow>
                                  (case close_error e of
                                     Some y \<Rightarrow> (Raises y, s2)
                                   | None \<Rightarrow>
                                       (Returns (error_result x
                                                   (py_round3 (time_failed e - start_time))),
                                        released))))))"

text \<open>\<^verbatim>\<open>process_turnstile\<close>: the JSON body and the HTTP status of the response. The query
  parameters are \<open>None\<close> when the request does not carry them.\<close>

definition process_turnstile ::
  "server \<Rightarrow> env \<Rightarrow> string option \<Rightarrow> string option \<Rightarrow> string option \<Rightarrow> string option
     \<Rightarrow> (pydict \<times> nat) outcome \<times> server" where
  "process_turnstile srv e url sitekey action cdata =
     (if \<not> truthy url \<or> \<not> truthy sitekey then (Returns (required_error, 400), srv)
      else
        (case solve_turnstile srv e (str_or_empty url) (str_or_empty sitekey) action cdata of
           (Blocks, s) \<Rightarrow> (Blocks, s)
         | (Raises x, s) \<Rightarrow>
             (Returns ([(''status'', PStr ''error''), (''error'', PStr (str_of x))], 500), s)
         | (Returns result, s) \<Rightarrow>
             (case subscript result ''status'' of
                Inl x \<Rightarrow>
                  (Returns ([(''status'', PStr ''error''), (''error'', PStr (str_of x))], 500), s)
              | Inr st \<Rightarrow>
                  (Returns (result, if st = PStr ''success'' then 200 else 422), s))))"

section \<open>Conditions on the environment\<close>

text \<open>At attempt \<open>i\<close> the Solver Core finds no token: the evaluation raises, or the field
  is absent, empty or blank.\<close>

definition no_token_at :: "env \<Rightarrow> nat \<Rightarrow> bool" where
  "no_token_at e i =
     (case evaluate_token e i of
        Inl x \<Rightarrow> True
      | Inr None \<Rightarrow> True
      | Inr (Some t) \<Rightarrow> py_strip t = [])"

text \<open>At attempt \<open>i\<close> the legacy server finds no token: reading the field raises, or the
  field is empty.\<close>

definition no_input_at :: "env \<Rightarrow> nat \<Rightarrow> bool" where
  "no_input_at e i = (case input_value e i of Inl x \<Rightarrow> True | Inr v \<Rightarrow> v = [])"

section \<open>Example inputs\<close>






text \<open>An environment in which every call succeeds and the response field stays empty:
  no proxy file, the clock at 100 s when the call starts and at 130.0004 s when it fails.\<close>

definition calm_env :: env where
  "calm_env =
     \<lparr> proxy_file = Missing ''[Errno 2] No such file or directory'',
       random_index = 0,
       new_context_error = (\<lambda>p. None),
       new_page_error = None,
       route_error = (\<lambda>u d. None),
       goto_error = (\<lambda>u. None),
       wait_for_selector_error = None,
       iframe_count = Inr 1,
       iframe_click_error = None,
       widget_click_error = None,
       js_click_error = None,
       evaluate_token = (\<lambda>i. Inr None),
       eval_on_selector_error = None,
       input_value = (\<lambda>i. Inr []),
       locator_click_error = (\<lambda>i. None),
       close_error_at = (\<lambda>i. None),
       close_error = None,
       time_start = 100,
       time_solved = (\<lambda>i. 101),
       time_failed = 1300004 / 10000 \<rparr>"

text \<open>A solver with two free slots, and a legacy server with one.\<close>

definition example_solver :: solver where
  "example_solver =
     \<lparr> headless = True, thread_count = 2, browser_type = ''chromium'', proxy_support = True,
       useragent = ''Mozilla/5.0'', browser_pool = [(1, 0), (2, 1)], open_contexts = [] \<rparr>"

definition example_server :: server where
  "example_server =
     \<lparr> srv_browser_type = ''chromium'', srv_headless = False, srv_useragent = None,
       srv_thread_count = 1, srv_proxy_support = True, srv_browser_pool = [(1, 0)],
       srv_open_contexts = [] \<rparr>"

text \<open>Proxy list files: one line with two fields, one with three, a blank line followed
  by one with five, and only blank lines.\<close>

definition bad_proxy_env :: env where
  "bad_proxy_env = calm_env\<lparr>proxy_file := Readable [''bad:format'' @ [CHR 0x0A]]\<rparr>"

definition plain_proxy_env :: env where
  "plain_proxy_env = calm_env\<lparr>proxy_file := Readable [''socks5:1.2.3.4:1080'' @ [CHR 0x0A]]\<rparr>"

definition auth_proxy_env :: env where
  "auth_proxy_env =
     calm_env\<lparr>proxy_file := Readable [''   '', ''http:1.2.3.4:8080:user:pass'' @ [CHR 0x0A]]\<rparr>"

definition blank_proxy_env :: env where
  "blank_proxy_env = calm_env\<lparr>proxy_file := Readable [''  '' @ [CHR 0x0A], ''   '' @ [CHR 0x0A]]\<rparr>"

text \<open>The legacy server without proxy support; an environment in which the navigation
  fails; one in which the token is there at the first read.\<close>

definition plain_server :: server where
  "plain_server = example_server\<lparr>srv_proxy_support := False\<rparr>"

definition offline_env :: env where
  "offline_env = calm_env\<lparr>goto_error := (\<lambda>u. Some (EngineError ''net::ERR_INTERNET_DISCONNECTED''))\<rparr>"

definition solved_env :: env where
  "solved_env = calm_env\<lparr>input_value := (\<lambda>i. Inr ''XXXX.DUMMY.TOKEN'')\<rparr>"

text \<open>An environment whose clock is set back during the call (it reads 99 s at the
  failure, after 100 s at the start), and one in which \<^verbatim>\<open>context.close()\<close> raises.\<close>

definition clock_back_env :: env where
  "clock_back_env = calm_env\<lparr>time_failed := 99\<rparr>"

definition close_fails_env :: env where
  "close_fails_env =
     calm_env\<lparr>close_error := Some (EngineError ''Connection closed while reading from the driver'')\<rparr>"

section \<open>Properties of the configuration loader\<close>








section \<open>Properties of the health endpoint\<close>

text \<open>
  Claim C9. \<open>GET /health\<close> answers \<open>down\<close> with the message "Solver not initialized" when
  the solver is not constructed; with a solver, whose live status has \<open>initialized\<close> true
  exactly when the pool is not empty and \<open>pool_size\<close> the number of free slots, it answers
  \<open>up\<close> with that number when the pool is not empty, and \<open>down\<close> with the message "Solver
  pool empty" when it is.
\<close>

theorem health_check_states:
  "health_check None display
     = Inr [(''status'', PStr ''down''), (''message'', PStr ''Solver not initialized'')]
   \<and> health_check (Some slv) display
     = (if browser_pool slv \<noteq> []
        then Inr [(''status'', PStr ''up''), (''pool_size'', PInt (int (length (browser_pool slv))))]
        else Inr [(''status'', PStr ''down''), (''message'', PStr ''Solver pool empty'')])
   \<and> subscript (get_status slv display) ''initialized'' = Inr (PBool (browser_pool slv \<noteq> []))
   \<and> subscript (get_status slv display) ''pool_size''
     = Inr (PInt (int (length (browser_pool slv))))"
  by (simp add: health_check_def get_status_def subscript_def)

text \<open>After initialisation with two browsers and no solve yet: \<open>up\<close> with pool size 2;
  with the pool drained: \<open>down\<close>.\<close>

theorem health_check_states_witness:
  "health_check (Some example_solver) None
     = Inr [(''status'', PStr ''up''), (''pool_size'', PInt 2)]
   \<and> health_check (Some (example_solver\<lparr>browser_pool := []\<rparr>)) None
     = Inr [(''status'', PStr ''down''), (''message'', PStr ''Solver pool empty'')]"
  using health_check_states [of None example_solver]
    health_check_states [of None "example_solver\<lparr>browser_pool := []\<rparr>"]
  by (simp add: example_solver_def)

section \<open>Properties of the legacy launcher\<close>



section \<open>Auxiliary facts: strings, proxies, time\<close>

lemma py_strip_Nil: "py_strip [] = []"
  by (simp add: py_strip_def)

lemma read_proxies_nonempty: "p \<in> set (read_proxies ls) \<Longrightarrow> p \<noteq> []"
  by (auto simp: read_proxies_def)

lemma read_proxies_blank: "(\<forall>l\<in>set ls. py_strip l = []) \<Longrightarrow> read_proxies ls = []"
  by (simp add: read_proxies_def filter_empty_conv)

lemma choose_proxy_mem: "choose_proxy e ps = Some p \<Longrightarrow> p \<in> set ps"
  by (auto simp: choose_proxy_def split: if_splits)

lemma chosen_truthy: "choose_proxy e (read_proxies ls) = Some p \<Longrightarrow> truthy (Some p)"
  using choose_proxy_mem read_proxies_nonempty by (fastforce simp: truthy_def)

lemma choose_proxy_Nil: "choose_proxy e [] = None"
  by (simp add: choose_proxy_def)

lemma authenticated_proxy_fields:
  "authenticated_proxy [scheme, host, port, user, pass]
     = [(''server'', scheme @ ''://'' @ host @ '':'' @ port),
        (''username'', user), (''password'', pass)]"
  by (simp add: authenticated_proxy_def)

lemma py_round3_thousandth: "\<exists>k::int. py_round3 x = of_int k / 1000"
  unfolding py_round3_def Let_def by blast

lemma py_round3_nonneg: "0 \<le> x \<Longrightarrow> 0 \<le> py_round3 x"
proof -
  assume "0 \<le> x"
  then have "0 \<le> \<lfloor>x * 1000\<rfloor>" by simp
  then show ?thesis
    unfolding py_round3_def Let_def by (auto simp: divide_nonneg_pos)
qed

lemma time_key:
  "map_of (error_result x t) ''time'' = Some (PFloat t)"
  "map_of (success_result tok t) ''time'' = Some (PFloat t)"
  "map_of required_error ''time'' = None"
  by (simp_all add: error_result_def success_result_def required_error_def)

lemma guarded_result_status:
  "map_of (success_result tok t) ''status'' = Some (PStr ''success'')"
  "map_of (error_result x t) ''status'' = Some (PStr ''error'')"
  by (simp_all add: success_result_def error_result_def)

section \<open>Auxiliary facts: the Solver Core\<close>

text \<open>The polling loop finds nothing when no attempt finds a token, and what it finds is
  a success result.\<close>

lemma wait_for_token_None:
  "(\<forall>i\<in>set as. no_token_at e i) \<Longrightarrow> wait_for_token e st as = None"
proof (induction as)
  case Nil
  show ?case by simp
next
  case (Cons a as)
  then have "no_token_at e a" and rest: "wait_for_token e st as = None" by simp_all
  then show ?case
    by (auto simp: no_token_at_def truthy_def str_or_empty_def split: sum.splits option.splits)
qed

lemma wait_for_token_Some:
  "wait_for_token e st as = Some r \<Longrightarrow> \<exists>tok t. r = success_result tok t"
  by (induction as) (auto split: sum.splits if_splits)

lemma solve_on_page_Inr:
  "solve_on_page e url sitekey action cdata st = Inr r \<Longrightarrow> \<exists>tok t. r = success_result tok t"
  by (auto simp: solve_on_page_def split: option.splits dest: wait_for_token_Some)

lemma solve_on_page_timeout:
  assumes "route_error e (url_with_slash url) (turnstile_div sitekey action cdata) = None"
    and "goto_error e (url_with_slash url) = None"
    and "wait_for_selector_error e = None"
    and "click_turnstile e = None"
    and "\<forall>i<30. no_token_at e i"
  shows "solve_on_page e url sitekey action cdata st
           = Inl (Exception ''Failed to get Turnstile token after 30 attempts'')"
proof -
  from assms(5) have "\<forall>i\<in>set [0..<30]. no_token_at e i" by simp
  then have "wait_for_token e st [0..<30] = None" by (rule wait_for_token_None)
  with assms(1-4) show ?thesis by (simp add: solve_on_page_def)
qed

lemma solve_invalid:
  "\<not> truthy url \<or> \<not> truthy sitekey \<Longrightarrow>
     solve slv e url sitekey action cdata = (Returns required_error, slv)"
  by (auto simp: solve_def)

lemma solve_failed_time:
  "solve_failed e st sl x s = (Returns r, s') \<Longrightarrow> map_of r ''time'' \<noteq> None"
  by (auto simp: solve_failed_def time_key)

lemma solve_valid_time:
  assumes "truthy url" "truthy sitekey"
    and "solve slv e url sitekey action cdata = (Returns r, s)"
  shows "map_of r ''time'' \<noteq> None"
proof (cases "browser_pool slv")
  case Nil
  with assms show ?thesis by (simp add: solve_def)
next
  case (Cons sl rest)
  show ?thesis
  proof (cases "setup_context slv e")
    case (Inl x)
    with assms Cons show ?thesis
      by (auto simp: solve_def dest: solve_failed_time)
  next
    case (Inr ctx)
    show ?thesis
    proof (cases "new_page_error e")
      case (Some x)
      with assms Cons Inr show ?thesis
        by (auto simp: solve_def Let_def dest: solve_failed_time)
    next
      case None
      show ?thesis
      proof (cases "solve_on_page e (str_or_empty url) (str_or_empty sitekey) action cdata
                      (time_start e)")
        case (Inl x)
        with assms Cons Inr None show ?thesis
          by (auto simp: solve_def Let_def dest: solve_failed_time)
      next
        case page: (Inr result)
        then obtain tok t where "result = success_result tok t"
          using solve_on_page_Inr by blast
        with assms Cons Inr None page show ?thesis
          by (cases "close_error e") (auto simp: solve_def Let_def time_key dest: solve_failed_time)
      qed
    qed
  qed
qed

lemma solve_failed_pool:
  "browser_pool (snd (solve_failed e st sl x s)) = browser_pool s @ [sl]
   \<and> (\<exists>r. fst (solve_failed e st sl x s) = Returns r)"
  by (simp add: solve_failed_def)

text \<open>A call of \<open>solve\<close> that passes validation and finds a free slot returns a result
  and puts the slot back at the end of the pool, whatever the environment does.\<close>

lemma solve_returns_slot:
  assumes "truthy url" "truthy sitekey" and "browser_pool slv = sl # rest"
  shows "browser_pool (snd (solve slv e url sitekey action cdata)) = rest @ [sl]
         \<and> (\<exists>r. fst (solve slv e url sitekey action cdata) = Returns r)"
  using assms
  by (auto simp: solve_def Let_def solve_failed_pool split: sum.splits option.splits)

lemma setup_context_calm: "setup_context example_solver calm_env = Inr None"
  by (simp add: setup_context_def example_solver_def calm_env_def browser_new_context_def)

lemma solve_validation_returns:
  "\<exists>r s. solve example_solver calm_env (Some ''https://example.com'') (Some ''0x4AAAAAAAB'') None None
           = (Returns r, s)"
proof -
  have "truthy (Some ''https://example.com'')" "truthy (Some ''0x4AAAAAAAB'')"
    "browser_pool example_solver = (1, 0) # [(2, 1)]"
    by (simp_all add: truthy_def example_solver_def)
  from solve_returns_slot [OF this, of calm_env None None] show ?thesis
    by (metis prod.collapse)
qed

lemma setup_context_chosen:
  assumes "proxy_support slv" and "proxy_file e = Readable ls"
    and "choose_proxy e (read_proxies ls) = Some p"
  shows "setup_context slv e =
           (let parts = py_split CHR '':'' p
            in if length parts = 3 then browser_new_context e (Some [(''server'', p)])
               else if length parts = 5 then browser_new_context e (Some (authenticated_proxy parts))
               else browser_new_context e None)"
  using assms chosen_truthy [OF assms(3)]
  by (simp add: setup_context_def str_or_empty_def Let_def)

text \<open>Hence the pool holds the same slots after any sequence of calls as before.\<close>

lemma solve_keeps_pool:
  "length (browser_pool (snd (solve slv e url sitekey action cdata))) = length (browser_pool slv)
   \<and> set (browser_pool (snd (solve slv e url sitekey action cdata))) = set (browser_pool slv)"
proof (cases "truthy url \<and> truthy sitekey")
  case False
  then show ?thesis by (auto simp: solve_invalid)
next
  case True
  show ?thesis
  proof (cases "browser_pool slv")
    case Nil
    with True show ?thesis by (simp add: solve_def)
  next
    case (Cons sl rest)
    with True solve_returns_slot [of url sitekey slv sl rest e action cdata]
    show ?thesis by auto
  qed
qed

lemma solve_calls_keep_pool:
  "length (browser_pool (solve_calls slv calls)) = length (browser_pool slv)
   \<and> set (browser_pool (solve_calls slv calls)) = set (browser_pool slv)"
proof (induction calls arbitrary: slv)
  case Nil
  show ?case by (simp add: solve_calls_def)
next
  case (Cons c calls)
  obtain e url sitekey action cdata where c: "c = (e, url, sitekey, action, cdata)"
    by (cases c)
  have "solve_calls slv (c # calls)
          = solve_calls (snd (solve slv e url sitekey action cdata)) calls"
    by (simp add: solve_calls_def c)
  with Cons.IH [of "snd (solve slv e url sitekey action cdata)"]
    solve_keeps_pool [of slv e url sitekey action cdata]
  show ?case by simp
qed

section \<open>Auxiliary facts: the legacy server\<close>

lemma poll_token_timeout:
  "(\<forall>i\<in>set as. no_input_at e i) \<Longrightarrow>
     poll_token e as = Inl (Exception ''Failed to get Turnstile token after 15 attempts'')"
proof (induction as)
  case Nil
  show ?case by simp
next
  case (Cons a as)
  then have "no_input_at e a"
    and "poll_token e as = Inl (Exception ''Failed to get Turnstile token after 15 attempts'')"
    by simp_all
  then show ?case
    by (auto simp: no_input_at_def split: sum.splits option.splits)
qed

lemma guarded_attempt_timeout:
  assumes "route_error e (url_with_slash url) (legacy_div sitekey action cdata) = None"
    and "goto_error e (url_with_slash url) = None"
    and "eval_on_selector_error e = None"
    and "\<forall>i<15. no_input_at e i"
  shows "guarded_attempt e url sitekey action cdata
           = Inl (Exception ''Failed to get Turnstile token after 15 attempts'')"
proof -
  from assms(4) have "\<forall>i\<in>set [0..<15]. no_input_at e i" by simp
  then have "poll_token e [0..<15]
               = Inl (Exception ''Failed to get Turnstile token after 15 attempts'')"
    by (rule poll_token_timeout)
  with assms(1-3) show ?thesis by (simp add: guarded_attempt_def)
qed

text \<open>The three ways through \<open>solve_turnstile\<close> once a slot is taken: the context is not
  created (the slot is not put back), the guarded attempt raises and the handler runs, the
  token is read.\<close>

lemma solve_turnstile_no_context:
  "srv_browser_pool srv = sl # rest \<Longrightarrow> make_context srv e = Inl x \<Longrightarrow>
     solve_turnstile srv e url sitekey action cdata = (Raises x, srv\<lparr>srv_browser_pool := rest\<rparr>)"
  by (simp add: solve_turnstile_def)

lemma solve_turnstile_caught:
  assumes "srv_browser_pool srv = sl # rest"
    and "make_context srv e = Inr ctx"
    and "new_page_error e = None"
    and "close_error e = None"
    and "guarded_attempt e url sitekey action cdata = Inl x"
  shows "solve_turnstile srv e url sitekey action cdata
           = (Returns (error_result x (py_round3 (time_failed e - time_start e))),
              srv\<lparr>srv_browser_pool := rest @ [sl]\<rparr>)"
  using assms by (simp add: solve_turnstile_def Let_def)

lemma solve_turnstile_solved:
  assumes "srv_browser_pool srv = sl # rest"
    and "make_context srv e = Inr ctx"
    and "new_page_error e = None"
    and "guarded_attempt e url sitekey action cdata = Inr (attempt, token)"
  shows "solve_turnstile srv e url sitekey action cdata
           = (Returns (success_result token (py_round3 (time_solved e attempt - time_start e))),
              srv\<lparr>srv_browser_pool := rest @ [sl]\<rparr>)"
  using assms by (simp add: solve_turnstile_def Let_def)

lemma solve_turnstile_status:
  assumes "solve_turnstile srv e url sitekey action cdata = (Returns r, s)"
  shows "map_of r ''status'' = Some (PStr ''success'') \<or> map_of r ''status'' = Some (PStr ''error'')"
  using assms
  by (auto simp: solve_turnstile_def Let_def guarded_result_status
           split: list.splits sum.splits option.splits prod.splits)

lemma make_context_plain: "make_context plain_server e = browser_new_context e None"
  by (simp add: make_context_def plain_server_def)

lemma make_context_chosen:
  assumes "srv_proxy_support srv" and "proxy_file e = Readable ls"
    and "choose_proxy e (read_proxies ls) = Some p"
  shows "make_context srv e =
           (let parts = py_split CHR '':'' p
            in if length parts = 3 then browser_new_context e (Some [(''server'', p)])
               else if length parts = 5 then browser_new_context e (Some (authenticated_proxy parts))
               else Inl (ValueError ''Invalid proxy format''))"
  using assms chosen_truthy [OF assms(3)]
  by (simp add: make_context_def str_or_empty_def Let_def)

lemma chosen_examples:
  "choose_proxy plain_proxy_env (read_proxies [''socks5:1.2.3.4:1080'' @ [CHR 0x0A]])
     = Some ''socks5:1.2.3.4:1080''"
  "choose_proxy auth_proxy_env (read_proxies [''   '', ''http:1.2.3.4:8080:user:pass'' @ [CHR 0x0A]])
     = Some ''http:1.2.3.4:8080:user:pass''"
  "choose_proxy bad_proxy_env (read_proxies [''bad:format'' @ [CHR 0x0A]]) = Some ''bad:format''"
  by (simp_all add: choose_proxy_def read_proxies_def py_strip_def py_isspace_def)

lemma timeout_plain:
  "solve_turnstile plain_server calm_env url sitekey None None
     = (Returns [(''status'', PStr ''error''),
                 (''error'', PStr ''Failed to get Turnstile token after 15 attempts''),
                 (''time'', PFloat 30)],
        plain_server)"
proof -
  have "guarded_attempt calm_env url sitekey None None
          = Inl (Exception ''Failed to get Turnstile token after 15 attempts'')"
    by (rule guarded_attempt_timeout) (simp_all add: calm_env_def no_input_at_def)
  moreover have "srv_browser_pool plain_server = (1, 0) # []"
    by (simp add: plain_server_def example_server_def)
  moreover have "make_context plain_server calm_env = Inr None"
    by (simp add: make_context_plain browser_new_context_def calm_env_def)
  moreover have "new_page_error calm_env = None" "close_error calm_env = None"
    by (simp_all add: calm_env_def)
  ultimately have "solve_turnstile plain_server calm_env url sitekey None None
     = (Returns (error_result (Exception ''Failed to get Turnstile token after 15 attempts'')
                   (py_round3 (time_failed calm_env - time_start calm_env))),
        plain_server\<lparr>srv_browser_pool := [] @ [(1, 0)]\<rparr>)"
    by (rule solve_turnstile_caught [rotated 4])
  moreover have "py_round3 (time_failed calm_env - time_start calm_env) = 30"
    by (simp add: calm_env_def py_round3_def Let_def)
  moreover have "plain_server\<lparr>srv_browser_pool := [] @ [(1, 0)]\<rparr> = plain_server"
    by (simp add: plain_server_def example_server_def)
  ultimately show ?thesis by (simp add: error_result_def)
qed

lemma success_plain:
  "solve_turnstile plain_server solved_env ''https://example.com'' ''0x4AAAAAAAB'' None None
     = (Returns [(''status'', PStr ''success''), (''token'', PStr ''XXXX.DUMMY.TOKEN''),
                 (''time'', PFloat 1)],
        plain_server)"
proof -
  have "[0..<15] = 0 # [1..<15]" by (simp add: upt_conv_Cons)
  then have "guarded_attempt solved_env ''https://example.com'' ''0x4AAAAAAAB'' None None
               = Inr (0, ''XXXX.DUMMY.TOKEN'')"
    by (simp add: guarded_attempt_def solved_env_def calm_env_def)
  moreover have "srv_browser_pool plain_server = (1, 0) # []"
    by (simp add: plain_server_def example_server_def)
  moreover have "make_context plain_server solved_env = Inr None"
    by (simp add: make_context_plain browser_new_context_def solved_env_def calm_env_def)
  moreover have "new_page_error solved_env = None"
    by (simp add: solved_env_def calm_env_def)
  ultimately have "solve_turnstile plain_server solved_env ''https://example.com''
                     ''0x4AAAAAAAB'' None None
     = (Returns (success_result ''XXXX.DUMMY.TOKEN''
                   (py_round3 (time_solved solved_env 0 - time_start solved_env))),
        plain_server\<lparr>srv_browser_pool := [] @ [(1, 0)]\<rparr>)"
    by (rule solve_turnstile_solved [rotated 3])
  moreover have "py_round3 (time_solved solved_env 0 - time_start solved_env) = 1"
    by (simp add: solved_env_def calm_env_def py_round3_def Let_def)
  moreover have "plain_server\<lparr>srv_browser_pool := [] @ [(1, 0)]\<rparr> = plain_server"
    by (simp add: plain_server_def example_server_def)
  ultimately show ?thesis by (simp add: success_result_def)
qed

lemma raise_bad_proxy:
  "solve_turnstile example_server bad_proxy_env url sitekey None None
     = (Raises (ValueError ''Invalid proxy format''), example_server\<lparr>srv_browser_pool := []\<rparr>)"
proof -
  have "make_context example_server bad_proxy_env = Inl (ValueError ''Invalid proxy format'')"
    using make_context_chosen [of example_server bad_proxy_env _ "''bad:format''"]
      chosen_examples(3)
    by (simp add: example_server_def bad_proxy_env_def)
  moreover have "srv_browser_pool example_server = (1, 0) # []"
    by (simp add: example_server_def)
  ultimately show ?thesis by (simp add: solve_turnstile_no_context)
qed

section \<open>Pool slots\<close>

text \<open>
  Claim C1 says that a slot taken from the pool is put back on every exit path of a solve
  call, in both components. The Solver Core does so (\<open>solve_returns_slot\<close>,
  \<open>solve_calls_keep_pool\<close>). The legacy server does not: with proxy support on and the
  proxy line \<^verbatim>\<open>bad:format\<close>, its solve routine takes the only slot, raises "Invalid
  proxy format" before its \<^verbatim>\<open>try\<close> statement is entered, and leaves the pool empty; the
  next call waits for ever.
\<close>

theorem legacy_slot_leak:
  "length (srv_browser_pool example_server) = 1
   \<and> solve_turnstile example_server bad_proxy_env ''https://example.com'' ''0x4AAAAAAAB'' None None
       = (Raises (ValueError ''Invalid proxy format''), example_server\<lparr>srv_browser_pool := []\<rparr>)
   \<and> length (srv_browser_pool (snd (solve_turnstile example_server bad_proxy_env
         ''https://example.com'' ''0x4AAAAAAAB'' None None))) = 0
   \<and> fst (solve_turnstile (example_server\<lparr>srv_browser_pool := []\<rparr>) plain_proxy_env
         ''https://example.com'' ''0x4AAAAAAAB'' None None) = Blocks"
  by (simp add: raise_bad_proxy) (simp add: example_server_def solve_turnstile_def)

section \<open>Proxy entries\<close>

text \<open>
  Claim C3. For the proxy line that was selected (proxy support on, the file readable): a
  line of exactly three fields gives, in both components, a context request whose proxy
  has the line itself as server and no credentials; a line of exactly five fields gives
  the server \<open>scheme://host:port\<close> with the fourth field as user name and the fifth as
  password; for any other number of fields the Solver Core requests a context with no
  proxy and raises nothing, and the legacy server raises "Invalid proxy format", which
  leaves its solve routine.
\<close>

theorem proxy_entry_parsing:
  assumes "proxy_support slv" and "srv_proxy_support srv"
    and "proxy_file e = Readable ls"
    and "choose_proxy e (read_proxies ls) = Some p"
  shows "(length (py_split CHR '':'' p) = 3 \<longrightarrow>
            setup_context slv e = browser_new_context e (Some [(''server'', p)])
            \<and> make_context srv e = browser_new_context e (Some [(''server'', p)]))
       \<and> (\<forall>scheme host port user pass.
            py_split CHR '':'' p = [scheme, host, port, user, pass] \<longrightarrow>
              setup_context slv e
                = browser_new_context e
                    (Some [(''server'', scheme @ ''://'' @ host @ '':'' @ port),
                           (''username'', user), (''password'', pass)])
              \<and> make_context srv e
                = browser_new_context e
                    (Some [(''server'', scheme @ ''://'' @ host @ '':'' @ port),
                           (''username'', user), (''password'', pass)]))
       \<and> (length (py_split CHR '':'' p) \<noteq> 3 \<and> length (py_split CHR '':'' p) \<noteq> 5 \<longrightarrow>
            setup_context slv e = browser_new_context e None
            \<and> make_context srv e = Inl (ValueError ''Invalid proxy format'')
            \<and> (\<forall>sl rest. srv_browser_pool srv = sl # rest \<longrightarrow>
                  fst (solve_turnstile srv e url sitekey action cdata)
                    = Raises (ValueError ''Invalid proxy format'')))"
proof -
  note core = setup_context_chosen [OF assms(1,3,4)]
  note legacy = make_context_chosen [OF assms(2,3,4)]
  have three: "setup_context slv e = browser_new_context e (Some [(''server'', p)])
               \<and> make_context srv e = browser_new_context e (Some [(''server'', p)])"
    if "length (py_split CHR '':'' p) = 3"
    using that core legacy by simp
  have five: "setup_context slv e
                = browser_new_context e
                    (Some [(''server'', scheme @ ''://'' @ host @ '':'' @ port),
                           (''username'', user), (''password'', pass)])
              \<and> make_context srv e
                = browser_new_context e
                    (Some [(''server'', scheme @ ''://'' @ host @ '':'' @ port),
                           (''username'', user), (''password'', pass)])"
    if "py_split CHR '':'' p = [scheme, host, port, user, pass]" for scheme host port user pass
    using that core legacy by (simp add: authenticated_proxy_fields)
  have other: "setup_context slv e = browser_new_context e None
            \<and> make_context srv e = Inl (ValueError ''Invalid proxy format'')
            \<and> (\<forall>sl rest. srv_browser_pool srv = sl # rest \<longrightarrow>
                  fst (solve_turnstile srv e url sitekey action cdata)
                    = Raises (ValueError ''Invalid proxy format''))"
    if "length (py_split CHR '':'' p) \<noteq> 3 \<and> length (py_split CHR '':'' p) \<noteq> 5"
  proof -
    from that core have c: "setup_context slv e = browser_new_context e None" by simp
    from that legacy have l: "make_context srv e = Inl (ValueError ''Invalid proxy format'')"
      by simp
    from l have "\<forall>sl rest. srv_browser_pool srv = sl # rest \<longrightarrow>
                  fst (solve_turnstile srv e url sitekey action cdata)
                    = Raises (ValueError ''Invalid proxy format'')"
      by (simp add: solve_turnstile_no_context)
    with c l show ?thesis by blast
  qed
  from three five other show ?thesis by blast
qed

text \<open>The three lines of the specification's example.\<close>

theorem proxy_entry_parsing_witness:
  "setup_context example_solver plain_proxy_env = Inr (Some [(''server'', ''socks5:1.2.3.4:1080'')])
   \<and> make_context example_server plain_proxy_env = Inr (Some [(''server'', ''socks5:1.2.3.4:1080'')])
   \<and> setup_context example_solver auth_proxy_env
       = Inr (Some [(''server'', ''http://1.2.3.4:8080''), (''username'', ''user''),
                    (''password'', ''pass'')])
   \<and> make_context example_server auth_proxy_env
       = Inr (Some [(''server'', ''http://1.2.3.4:8080''), (''username'', ''user''),
                    (''password'', ''pass'')])
   \<and> setup_context example_solver bad_proxy_env = Inr None
   \<and> make_context example_server bad_proxy_env = Inl (ValueError ''Invalid proxy format'')
   \<and> fst (solve_turnstile example_server bad_proxy_env ''https://example.com'' ''0x4AAAAAAAB''
            None None)
       = Raises (ValueError ''Invalid proxy format'')"
proof -
  have on: "proxy_support example_solver" "srv_proxy_support example_server"
    by (simp_all add: example_solver_def example_server_def)
  have files: "proxy_file plain_proxy_env = Readable [''socks5:1.2.3.4:1080'' @ [CHR 0x0A]]"
    "proxy_file auth_proxy_env = Readable [''   '', ''http:1.2.3.4:8080:user:pass'' @ [CHR 0x0A]]"
    "proxy_file bad_proxy_env = Readable [''bad:format'' @ [CHR 0x0A]]"
    by (simp_all add: plain_proxy_env_def auth_proxy_env_def bad_proxy_env_def)
  have fields: "length (py_split CHR '':'' ''socks5:1.2.3.4:1080'') = 3"
    "py_split CHR '':'' ''http:1.2.3.4:8080:user:pass''
       = [''http'', ''1.2.3.4'', ''8080'', ''user'', ''pass'']"
    "length (py_split CHR '':'' ''bad:format'') \<noteq> 3 \<and> length (py_split CHR '':'' ''bad:format'') \<noteq> 5"
    by simp_all
  have engine: "browser_new_context plain_proxy_env = Inr" "browser_new_context auth_proxy_env = Inr"
    "browser_new_context bad_proxy_env = Inr"
    by (simp_all add: fun_eq_iff browser_new_context_def plain_proxy_env_def auth_proxy_env_def
          bad_proxy_env_def calm_env_def)
  have pool: "srv_browser_pool example_server = (1, 0) # []"
    by (simp add: example_server_def)
  from proxy_entry_parsing [OF on files(1) chosen_examples(1)] fields(1)
  have a: "setup_context example_solver plain_proxy_env = Inr (Some [(''server'', ''socks5:1.2.3.4:1080'')])
   \<and> make_context example_server plain_proxy_env = Inr (Some [(''server'', ''socks5:1.2.3.4:1080'')])"
    unfolding engine by blast
  from proxy_entry_parsing [OF on files(2) chosen_examples(2)] fields(2)
  have b: "setup_context example_solver auth_proxy_env
       = Inr (Some [(''server'', ''http'' @ ''://'' @ ''1.2.3.4'' @ '':'' @ ''8080''),
                    (''username'', ''user''), (''password'', ''pass'')])
   \<and> make_context example_server auth_proxy_env
       = Inr (Some [(''server'', ''http'' @ ''://'' @ ''1.2.3.4'' @ '':'' @ ''8080''),
                    (''username'', ''user''), (''password'', ''pass'')])"
    unfolding engine by blast
  from proxy_entry_parsing [OF on files(3) chosen_examples(3),
      of "''https://example.com''" "''0x4AAAAAAAB''" None None] fields(3) pool
  have c: "setup_context example_solver bad_proxy_env = Inr None
   \<and> make_context example_server bad_proxy_env = Inl (ValueError ''Invalid proxy format'')
   \<and> fst (solve_turnstile example_server bad_proxy_env ''https://example.com'' ''0x4AAAAAAAB''
            None None)
       = Raises (ValueError ''Invalid proxy format'')"
    unfolding engine by blast
  from a b c show ?thesis by simp
qed

text \<open>Where a context with no proxy is requested: in the Solver Core whenever proxy
  support is off, the proxy file is missing, or the file has no non-blank line; in the
  legacy server whenever proxy support is off or the file is readable and has no non-blank
  line. With proxy support on and the file missing the legacy server raises the
  \<^verbatim>\<open>FileNotFoundError\<close> of \<^verbatim>\<open>open\<close>.\<close>

lemma no_proxy_context:
  "((\<not> proxy_support slv \<or> (\<exists>m. proxy_file e = Missing m)
      \<or> (\<exists>ls. proxy_file e = Readable ls \<and> (\<forall>l\<in>set ls. py_strip l = []))) \<longrightarrow>
       setup_context slv e = browser_new_context e None)
   \<and> ((\<not> srv_proxy_support srv
        \<or> (\<exists>ls. proxy_file e = Readable ls \<and> (\<forall>l\<in>set ls. py_strip l = []))) \<longrightarrow>
       make_context srv e = browser_new_context e None)
   \<and> (srv_proxy_support srv \<and> proxy_file e = Missing m \<longrightarrow>
       make_context srv e = Inl (FileNotFoundError m))
   \<and> (new_context_error e None = None \<longrightarrow> browser_new_context e None = Inr None)"
proof (intro conjI impI)
  assume "\<not> proxy_support slv \<or> (\<exists>m. proxy_file e = Missing m)
      \<or> (\<exists>ls. proxy_file e = Readable ls \<and> (\<forall>l\<in>set ls. py_strip l = []))"
  then show "setup_context slv e = browser_new_context e None"
    by (auto simp: setup_context_def read_proxies_blank choose_proxy_Nil truthy_def)
next
  assume "\<not> srv_proxy_support srv
        \<or> (\<exists>ls. proxy_file e = Readable ls \<and> (\<forall>l\<in>set ls. py_strip l = []))"
  then show "make_context srv e = browser_new_context e None"
    by (auto simp: make_context_def read_proxies_blank choose_proxy_Nil truthy_def)
next
  assume "srv_proxy_support srv \<and> proxy_file e = Missing m"
  then show "make_context srv e = Inl (FileNotFoundError m)"
    by (simp add: make_context_def)
next
  assume "new_context_error e None = None"
  then show "browser_new_context e None = Inr None"
    by (simp add: browser_new_context_def)
qed

lemma no_proxy_context_examples:
  "setup_context example_solver calm_env = Inr None
   \<and> setup_context example_solver blank_proxy_env = Inr None
   \<and> make_context example_server blank_proxy_env = Inr None
   \<and> make_context plain_server calm_env = Inr None
   \<and> make_context example_server calm_env
       = Inl (FileNotFoundError ''[Errno 2] No such file or directory'')"
proof -
  have missing: "proxy_file calm_env = Missing ''[Errno 2] No such file or directory''"
    by (simp add: calm_env_def)
  have blank: "proxy_file blank_proxy_env = Readable [''  '' @ [CHR 0x0A], ''   '' @ [CHR 0x0A]]
               \<and> (\<forall>l\<in>set [''  '' @ [CHR 0x0A], ''   '' @ [CHR 0x0A]]. py_strip l = [])"
    by (simp add: blank_proxy_env_def py_strip_def py_isspace_def)
  have off: "\<not> srv_proxy_support plain_server" and on: "srv_proxy_support example_server"
    by (simp_all add: plain_server_def example_server_def)
  have engine: "new_context_error calm_env None = None" "new_context_error blank_proxy_env None = None"
    by (simp_all add: blank_proxy_env_def calm_env_def)
  from no_proxy_context [of example_solver calm_env plain_server
      "''[Errno 2] No such file or directory''"] missing off engine(1)
  have a: "setup_context example_solver calm_env = Inr None"
    and d: "make_context plain_server calm_env = Inr None"
    by auto
  from no_proxy_context [of example_solver blank_proxy_env example_server] blank engine(2)
  have b: "setup_context example_solver blank_proxy_env = Inr None"
    and c: "make_context example_server blank_proxy_env = Inr None"
    by auto
  from no_proxy_context [of example_solver calm_env example_server
      "''[Errno 2] No such file or directory''"] missing on
  have f: "make_context example_server calm_env
       = Inl (FileNotFoundError ''[Errno 2] No such file or directory'')"
    by blast
  from a b c d f show ?thesis by simp
qed

text \<open>
  Claim C4 says that both components create a context with no proxy, and raise nothing,
  whenever the proxy list file is missing. The Solver Core does so. The legacy server
  does not: with proxy support on and no proxy file, although the browser would create the
  context, its solve routine raises the \<^verbatim>\<open>FileNotFoundError\<close> of \<^verbatim>\<open>open\<close>, creates no
  context, and leaves the pool without the slot it took.
\<close>

theorem legacy_missing_proxy_file:
  "srv_proxy_support example_server \<and> proxy_support example_solver
   \<and> proxy_file calm_env = Missing ''[Errno 2] No such file or directory''
   \<and> new_context_error calm_env None = None
   \<and> setup_context example_solver calm_env = Inr None
   \<and> make_context example_server calm_env
       = Inl (FileNotFoundError ''[Errno 2] No such file or directory'')
   \<and> solve_turnstile example_server calm_env ''https://example.com'' ''0x4AAAAAAAB'' None None
       = (Raises (FileNotFoundError ''[Errno 2] No such file or directory''),
          example_server\<lparr>srv_browser_pool := []\<rparr>)"
  by (simp add: solve_turnstile_def make_context_def setup_context_def browser_new_context_def
        example_server_def example_solver_def calm_env_def)

section \<open>Results of the Solver Core\<close>

text \<open>
  Claim C5. When \<open>url\<close> or \<open>sitekey\<close> is absent or empty, \<open>solve\<close> returns the error
  result "Both 'url' and 'sitekey' are required" and leaves the solver, its pool
  included, as it was; that result has no \<open>time\<close> entry, and a result of \<open>solve\<close> lacks
  the \<open>time\<close> entry exactly in this case.
\<close>

theorem solve_validation:
  "(\<not> truthy url \<or> \<not> truthy sitekey \<longrightarrow>
      solve slv e url sitekey action cdata = (Returns required_error, slv))
   \<and> map_of required_error ''time'' = None
   \<and> (\<forall>r s. solve slv e url sitekey action cdata = (Returns r, s) \<longrightarrow>
         (map_of r ''time'' = None \<longleftrightarrow> \<not> truthy url \<or> \<not> truthy sitekey))"
proof (intro conjI allI impI)
  show "solve slv e url sitekey action cdata = (Returns required_error, slv)"
    if "\<not> truthy url \<or> \<not> truthy sitekey"
    using that by (rule solve_invalid)
  show "map_of required_error ''time'' = None"
    by (simp add: time_key)
  show "map_of r ''time'' = None \<longleftrightarrow> \<not> truthy url \<or> \<not> truthy sitekey"
    if "solve slv e url sitekey action cdata = (Returns r, s)" for r s
  proof (cases "\<not> truthy url \<or> \<not> truthy sitekey")
    case True
    with that solve_invalid [OF True, of slv e action cdata] show ?thesis
      by (simp add: time_key)
  next
    case False
    with that solve_valid_time [of url sitekey slv e action cdata r s] show ?thesis
      by blast
  qed
qed

theorem solve_validation_witness:
  "solve example_solver calm_env (Some []) (Some ''0x4AAAAAAAB'') None None
     = (Returns required_error, example_solver)
   \<and> solve example_solver calm_env (Some ''https://example.com'') None None None
     = (Returns required_error, example_solver)
   \<and> (\<exists>r s. solve example_solver calm_env (Some ''https://example.com'') (Some ''0x4AAAAAAAB'')
               None None = (Returns r, s)
            \<and> map_of r ''time'' \<noteq> None)"
proof -
  have a: "\<not> truthy (Some []) \<or> \<not> truthy (Some ''0x4AAAAAAAB'')"
    and b: "\<not> truthy (Some ''https://example.com'') \<or> \<not> truthy None"
    and c: "\<not> (\<not> truthy (Some ''https://example.com'') \<or> \<not> truthy (Some ''0x4AAAAAAAB''))"
    by (simp_all add: truthy_def)
  from solve_validation [of "Some []" "Some ''0x4AAAAAAAB''" example_solver calm_env None None] a
  have 1: "solve example_solver calm_env (Some []) (Some ''0x4AAAAAAAB'') None None
     = (Returns required_error, example_solver)" by blast
  from solve_validation [of "Some ''https://example.com''" None example_solver calm_env None None] b
  have 2: "solve example_solver calm_env (Some ''https://example.com'') None None None
     = (Returns required_error, example_solver)" by blast
  from solve_validation_returns obtain r s where
    r: "solve example_solver calm_env (Some ''https://example.com'') (Some ''0x4AAAAAAAB'')
               None None = (Returns r, s)" by blast
  from solve_validation [of "Some ''https://example.com''" "Some ''0x4AAAAAAAB''"
      example_solver calm_env None None] r c
  have "map_of r ''time'' \<noteq> None" by blast
  with 1 2 r show ?thesis by blast
qed

text \<open>
  Claim C6, amended. When a call of \<open>solve\<close> passes validation, gets a slot, a context and a page,
  serves and loads the page, finds the widget and clicks it, and none of the 30 polling
  attempts finds a token, the result is the error "Failed to get Turnstile token after 30
  attempts" with a \<open>time\<close> entry that is the elapsed time rounded to a multiple of one
  thousandth, and not negative when the clock has not gone back.
\<close>

theorem solve_timeout_shape:
  assumes "truthy url" and "truthy sitekey"
    and "browser_pool slv = sl # rest"
    and "setup_context slv e = Inr ctx"
    and "new_page_error e = None"
    and "route_error e (url_with_slash (str_or_empty url))
           (turnstile_div (str_or_empty sitekey) action cdata) = None"
    and "goto_error e (url_with_slash (str_or_empty url)) = None"
    and "wait_for_selector_error e = None"
    and "click_turnstile e = None"
    and "\<forall>i<30. no_token_at e i"
  shows "\<exists>t. fst (solve slv e url sitekey action cdata)
               = Returns [(''status'', PStr ''error''),
                          (''error'', PStr ''Failed to get Turnstile token after 30 attempts''),
                          (''time'', PFloat t)]
             \<and> t = py_round3 (time_failed e - time_start e)
             \<and> (\<exists>k::int. t = of_int k / 1000)
             \<and> (time_start e \<le> time_failed e \<longrightarrow> 0 \<le> t)"
proof -
  let ?t = "py_round3 (time_failed e - time_start e)"
  have page: "solve_on_page e (str_or_empty url) (str_or_empty sitekey) action cdata (time_start e)
                = Inl (Exception ''Failed to get Turnstile token after 30 attempts'')"
    using assms(6-10) by (rule solve_on_page_timeout)
  have "fst (solve slv e url sitekey action cdata)
          = Returns (error_result (Exception ''Failed to get Turnstile token after 30 attempts'') ?t)"
    using assms(1-5) page by (simp add: solve_def solve_failed_def)
  then have "fst (solve slv e url sitekey action cdata)
               = Returns [(''status'', PStr ''error''),
                          (''error'', PStr ''Failed to get Turnstile token after 30 attempts''),
                          (''time'', PFloat ?t)]"
    by (simp add: error_result_def)
  moreover have "\<exists>k::int. ?t = of_int k / 1000" by (rule py_round3_thousandth)
  moreover have "time_start e \<le> time_failed e \<longrightarrow> 0 \<le> ?t"
    by (simp add: py_round3_nonneg)
  ultimately show ?thesis by blast
qed

theorem solve_timeout_shape_witness:
  "fst (solve example_solver calm_env (Some ''https://example.com'') (Some ''0x4AAAAAAAB'') None None)
     = Returns [(''status'', PStr ''error''),
                (''error'', PStr ''Failed to get Turnstile token after 30 attempts''),
                (''time'', PFloat 30)]"
proof -
  have h: "truthy (Some ''https://example.com'')" "truthy (Some ''0x4AAAAAAAB'')"
    "browser_pool example_solver = (1, 0) # [(2, 1)]"
    "new_page_error calm_env = None"
    "route_error calm_env (url_with_slash (str_or_empty (Some ''https://example.com'')))
       (turnstile_div (str_or_empty (Some ''0x4AAAAAAAB'')) None None) = None"
    "goto_error calm_env (url_with_slash (str_or_empty (Some ''https://example.com''))) = None"
    "wait_for_selector_error calm_env = None"
    "click_turnstile calm_env = None"
    "\<forall>i<30. no_token_at calm_env i"
    by (simp_all add: truthy_def example_solver_def calm_env_def click_turnstile_def
          no_token_at_def)
  have t: "py_round3 (time_failed calm_env - time_start calm_env) = 30"
    by (simp add: calm_env_def py_round3_def Let_def)
  from solve_timeout_shape [OF h(1,2,3) setup_context_calm h(4-9)] t
  show ?thesis by auto
qed

text \<open>Claim C6 as it is written fails when the clock is set back during the call: every
  step succeeds, no attempt finds a token, and the \<open>time\<close> entry of the timeout result
  is -1.\<close>

theorem solve_timeout_shape_counterexample:
  "time_failed clock_back_env < time_start clock_back_env
   \<and> fst (solve example_solver clock_back_env (Some ''https://example.com'')
            (Some ''0x4AAAAAAAB'') None None)
       = Returns [(''status'', PStr ''error''),
                  (''error'', PStr ''Failed to get Turnstile token after 30 attempts''),
                  (''time'', PFloat (- 1))]"
proof -
  have page: "solve_on_page clock_back_env ''https://example.com'' ''0x4AAAAAAAB'' None None 100
                = Inl (Exception ''Failed to get Turnstile token after 30 attempts'')"
    by (rule solve_on_page_timeout)
       (simp_all add: clock_back_env_def calm_env_def click_turnstile_def no_token_at_def)
  have ctx: "setup_context example_solver clock_back_env = Inr None"
    by (simp add: setup_context_def example_solver_def clock_back_env_def calm_env_def
          browser_new_context_def)
  have t: "py_round3 (time_failed clock_back_env - time_start clock_back_env) = - 1"
    by (simp add: clock_back_env_def calm_env_def py_round3_def Let_def)
  have start: "time_start clock_back_env = 100" "new_page_error clock_back_env = None"
    by (simp_all add: clock_back_env_def calm_env_def)
  have "fst (solve example_solver clock_back_env (Some ''https://example.com'')
            (Some ''0x4AAAAAAAB'') None None)
          = Returns (error_result (Exception ''Failed to get Turnstile token after 30 attempts'')
                       (py_round3 (time_failed clock_back_env - time_start clock_back_env)))"
    using page ctx start
    by (simp add: solve_def solve_failed_def truthy_def str_or_empty_def example_solver_def)
  then show ?thesis
    unfolding t by (simp add: error_result_def clock_back_env_def calm_env_def)
qed

section \<open>Results of the legacy server\<close>

text \<open>What the handler of \<open>solve_turnstile\<close> does when its \<^verbatim>\<open>context.close()\<close> returns,
  once the slot is taken, the context created and the page opened: when none of the 15
  polling attempts finds a token, the result is the error "Failed to get Turnstile token
  after 15 attempts" with the elapsed time; and for that exception as for every other one
  that leaves the guarded attempt, the result is an error result with the text of the
  exception and the elapsed time, the context is closed and the slot is back at the end of
  the pool.\<close>

lemma solve_turnstile_handler:
  assumes "srv_browser_pool srv = sl # rest"
    and "make_context srv e = Inr ctx"
    and "new_page_error e = None"
    and "close_error e = None"
  shows "(route_error e (url_with_slash url) (legacy_div sitekey action cdata) = None
          \<and> goto_error e (url_with_slash url) = None
          \<and> eval_on_selector_error e = None
          \<and> (\<forall>i<15. no_input_at e i) \<longrightarrow>
            solve_turnstile srv e url sitekey action cdata
              = (Returns [(''status'', PStr ''error''),
                          (''error'', PStr ''Failed to get Turnstile token after 15 attempts''),
                          (''time'', PFloat (py_round3 (time_failed e - time_start e)))],
                 srv\<lparr>srv_browser_pool := rest @ [sl]\<rparr>))
       \<and> (\<forall>x. guarded_attempt e url sitekey action cdata = Inl x \<longrightarrow>
            solve_turnstile srv e url sitekey action cdata
              = (Returns [(''status'', PStr ''error''),
                          (''error'', PStr (str_of x)),
                          (''time'', PFloat (py_round3 (time_failed e - time_start e)))],
                 srv\<lparr>srv_browser_pool := rest @ [sl]\<rparr>))"
proof (intro conjI allI impI)
  fix x
  assume "guarded_attempt e url sitekey action cdata = Inl x"
  from solve_turnstile_caught [OF assms this]
  show "solve_turnstile srv e url sitekey action cdata
              = (Returns [(''status'', PStr ''error''),
                          (''error'', PStr (str_of x)),
                          (''time'', PFloat (py_round3 (time_failed e - time_start e)))],
                 srv\<lparr>srv_browser_pool := rest @ [sl]\<rparr>)"
    by (simp add: error_result_def)
next
  assume "route_error e (url_with_slash url) (legacy_div sitekey action cdata) = None
          \<and> goto_error e (url_with_slash url) = None
          \<and> eval_on_selector_error e = None
          \<and> (\<forall>i<15. no_input_at e i)"
  then have "guarded_attempt e url sitekey action cdata
               = Inl (Exception ''Failed to get Turnstile token after 15 attempts'')"
    by (simp add: guarded_attempt_timeout)
  from solve_turnstile_caught [OF assms this]
  show "solve_turnstile srv e url sitekey action cdata
              = (Returns [(''status'', PStr ''error''),
                          (''error'', PStr ''Failed to get Turnstile token after 15 attempts''),
                          (''time'', PFloat (py_round3 (time_failed e - time_start e)))],
                 srv\<lparr>srv_browser_pool := rest @ [sl]\<rparr>)"
    by (simp add: error_result_def)
qed

text \<open>No token in 15 attempts, and a navigation that fails.\<close>

lemma solve_turnstile_handler_examples:
  "solve_turnstile plain_server calm_env ''https://example.com'' ''0x4AAAAAAAB'' None None
     = (Returns [(''status'', PStr ''error''),
                 (''error'', PStr ''Failed to get Turnstile token after 15 attempts''),
                 (''time'', PFloat 30)],
        plain_server)
   \<and> solve_turnstile plain_server offline_env ''https://example.com'' ''0x4AAAAAAAB'' None None
     = (Returns [(''status'', PStr ''error''),
                 (''error'', PStr ''net::ERR_INTERNET_DISCONNECTED''),
                 (''time'', PFloat 30)],
        plain_server)"
proof -
  have pool: "srv_browser_pool plain_server = (1, 0) # []"
    by (simp add: plain_server_def example_server_def)
  have same: "plain_server\<lparr>srv_browser_pool := [] @ [(1, 0)]\<rparr> = plain_server"
    by (simp add: plain_server_def example_server_def)
  have ctx: "make_context plain_server calm_env = Inr None"
    "make_context plain_server offline_env = Inr None"
    by (simp_all add: make_context_plain browser_new_context_def calm_env_def offline_env_def)
  have ok: "new_page_error calm_env = None" "close_error calm_env = None"
    "new_page_error offline_env = None" "close_error offline_env = None"
    by (simp_all add: calm_env_def offline_env_def)
  have quiet: "route_error calm_env (url_with_slash ''https://example.com'')
                 (legacy_div ''0x4AAAAAAAB'' None None) = None
               \<and> goto_error calm_env (url_with_slash ''https://example.com'') = None
               \<and> eval_on_selector_error calm_env = None
               \<and> (\<forall>i<15. no_input_at calm_env i)"
    by (simp add: calm_env_def no_input_at_def)
  have off: "guarded_attempt offline_env ''https://example.com'' ''0x4AAAAAAAB'' None None
               = Inl (EngineError ''net::ERR_INTERNET_DISCONNECTED'')"
    by (simp add: guarded_attempt_def offline_env_def calm_env_def)
  have t: "py_round3 (time_failed calm_env - time_start calm_env) = 30"
    "py_round3 (time_failed offline_env - time_start offline_env) = 30"
    by (simp_all add: offline_env_def calm_env_def py_round3_def Let_def)
  from solve_turnstile_handler [OF pool ctx(1) ok(1,2),
      of "''https://example.com''" "''0x4AAAAAAAB''" None None] quiet
  have a: "solve_turnstile plain_server calm_env ''https://example.com'' ''0x4AAAAAAAB'' None None
     = (Returns [(''status'', PStr ''error''),
                 (''error'', PStr ''Failed to get Turnstile token after 15 attempts''),
                 (''time'', PFloat 30)],
        plain_server)"
    unfolding t same by blast
  from solve_turnstile_handler [OF pool ctx(2) ok(3,4),
      of "''https://example.com''" "''0x4AAAAAAAB''" None None] off
  have b: "solve_turnstile plain_server offline_env ''https://example.com'' ''0x4AAAAAAAB'' None None
     = (Returns [(''status'', PStr ''error''),
                 (''error'', PStr ''net::ERR_INTERNET_DISCONNECTED''),
                 (''time'', PFloat 30)],
        plain_server)"
    unfolding t same by auto
  from a b show ?thesis ..
qed

text \<open>
  Claim C7 says that on the timeout, and on every other exception that leaves the attempt,
  the handler closes the context and returns the slot before it yields the error result.
  The handler calls \<^verbatim>\<open>context.close()\<close> before \<^verbatim>\<open>browser_pool.put\<close> and guards neither:
  when no attempt of the 15 finds a token and that \<^verbatim>\<open>context.close()\<close> raises, the solve
  routine raises the exception of the close, yields no error result, leaves the context
  open and the pool without the slot.
\<close>

theorem legacy_handler_close_leak:
  "srv_browser_pool plain_server = [(1, 0)]
   \<and> guarded_attempt close_fails_env ''https://example.com'' ''0x4AAAAAAAB'' None None
       = Inl (Exception ''Failed to get Turnstile token after 15 attempts'')
   \<and> solve_turnstile plain_server close_fails_env ''https://example.com'' ''0x4AAAAAAAB''
         None None
       = (Raises (EngineError ''Connection closed while reading from the driver''),
          plain_server\<lparr>srv_browser_pool := [], srv_open_contexts := [None]\<rparr>)"
proof -
  have g: "guarded_attempt close_fails_env ''https://example.com'' ''0x4AAAAAAAB'' None None
             = Inl (Exception ''Failed to get Turnstile token after 15 attempts'')"
    by (rule guarded_attempt_timeout)
       (simp_all add: close_fails_env_def calm_env_def no_input_at_def)
  have c: "make_context plain_server close_fails_env = Inr None"
    by (simp add: make_context_plain browser_new_context_def close_fails_env_def calm_env_def)
  have p: "srv_browser_pool plain_server = [(1, 0)]"
    by (simp add: plain_server_def example_server_def)
  have "solve_turnstile plain_server close_fails_env ''https://example.com'' ''0x4AAAAAAAB''
         None None
       = (Raises (EngineError ''Connection closed while reading from the driver''),
          plain_server\<lparr>srv_browser_pool := [], srv_open_contexts := [None]\<rparr>)"
    using g c p
    by (simp add: solve_turnstile_def Let_def close_fails_env_def calm_env_def
          plain_server_def example_server_def)
  with g p show ?thesis by simp
qed

text \<open>
  Claim C8, amended. \<open>GET /turnstile\<close> answers 400 with the body \<open>{status: "error", error:
  "Both 'url' and 'sitekey' are required"}\<close> when \<open>url\<close> or \<open>sitekey\<close> is absent or empty,
  without calling the solve routine. Otherwise the result of the solve routine is the
  body, with status 200 when its \<open>status\<close> entry is \<open>success\<close> and 422 when it is
  \<open>error\<close> (there is no third case); an exception that leaves the solve routine gives
  status 500 with the text of the exception.
\<close>

theorem process_turnstile_status:
  "(\<not> truthy url \<or> \<not> truthy sitekey \<longrightarrow>
      process_turnstile srv e url sitekey action cdata
        = (Returns ([(''status'', PStr ''error''),
                     (''error'', PStr ''Both 'url' and 'sitekey' are required'')], 400), srv))
   \<and> (truthy url \<and> truthy sitekey \<longrightarrow>
        (\<forall>r s. solve_turnstile srv e (str_or_empty url) (str_or_empty sitekey) action cdata
                  = (Returns r, s) \<longrightarrow>
           (map_of r ''status'' = Some (PStr ''success'')
              \<and> process_turnstile srv e url sitekey action cdata = (Returns (r, 200), s))
           \<or> (map_of r ''status'' = Some (PStr ''error'')
              \<and> process_turnstile srv e url sitekey action cdata = (Returns (r, 422), s)))
        \<and> (\<forall>x s. solve_turnstile srv e (str_or_empty url) (str_or_empty sitekey) action cdata
                  = (Raises x, s) \<longrightarrow>
           process_turnstile srv e url sitekey action cdata
             = (Returns ([(''status'', PStr ''error''), (''error'', PStr (str_of x))], 500), s)))"
proof (intro conjI impI allI)
  assume "\<not> truthy url \<or> \<not> truthy sitekey"
  then show "process_turnstile srv e url sitekey action cdata
        = (Returns ([(''status'', PStr ''error''),
                     (''error'', PStr ''Both 'url' and 'sitekey' are required'')], 400), srv)"
    by (auto simp: process_turnstile_def required_error_def)
next
  fix r s
  assume ok: "truthy url \<and> truthy sitekey"
    and res: "solve_turnstile srv e (str_or_empty url) (str_or_empty sitekey) action cdata
                  = (Returns r, s)"
  from solve_turnstile_status [OF res]
  show "(map_of r ''status'' = Some (PStr ''success'')
              \<and> process_turnstile srv e url sitekey action cdata = (Returns (r, 200), s))
           \<or> (map_of r ''status'' = Some (PStr ''error'')
              \<and> process_turnstile srv e url sitekey action cdata = (Returns (r, 422), s))"
    using ok res by (auto simp: process_turnstile_def subscript_def)
next
  fix x s
  assume "truthy url \<and> truthy sitekey"
    and "solve_turnstile srv e (str_or_empty url) (str_or_empty sitekey) action cdata
                  = (Raises x, s)"
  then show "process_turnstile srv e url sitekey action cdata
             = (Returns ([(''status'', PStr ''error''), (''error'', PStr (str_of x))], 500), s)"
    by (simp add: process_turnstile_def)
qed

text \<open>A request without \<open>sitekey\<close>, a timeout, a solved challenge and a malformed proxy
  line.\<close>

theorem process_turnstile_status_witness:
  "process_turnstile plain_server calm_env (Some ''https://example.com'') None None None
     = (Returns ([(''status'', PStr ''error''),
                  (''error'', PStr ''Both 'url' and 'sitekey' are required'')], 400),
        plain_server)
   \<and> process_turnstile plain_server calm_env (Some ''https://example.com'') (Some ''0x4AAAAAAAB'')
       None None
     = (Returns ([(''status'', PStr ''error''),
                  (''error'', PStr ''Failed to get Turnstile token after 15 attempts''),
                  (''time'', PFloat 30)], 422),
        plain_server)
   \<and> process_turnstile plain_server solved_env (Some ''https://example.com'') (Some ''0x4AAAAAAAB'')
       None None
     = (Returns ([(''status'', PStr ''success''), (''token'', PStr ''XXXX.DUMMY.TOKEN''),
                  (''time'', PFloat 1)], 200),
        plain_server)
   \<and> process_turnstile example_server bad_proxy_env (Some ''https://example.com'')
       (Some ''0x4AAAAAAAB'') None None
     = (Returns ([(''status'', PStr ''error''), (''error'', PStr ''Invalid proxy format'')], 500),
        example_server\<lparr>srv_browser_pool := []\<rparr>)"
proof -
  have no: "\<not> truthy (Some ''https://example.com'') \<or> \<not> truthy None"
    and yes: "truthy (Some ''https://example.com'') \<and> truthy (Some ''0x4AAAAAAAB'')"
    by (simp_all add: truthy_def)
  have args: "str_or_empty (Some ''https://example.com'') = ''https://example.com''"
    "str_or_empty (Some ''0x4AAAAAAAB'') = ''0x4AAAAAAAB''"
    by (simp_all add: str_or_empty_def)
  from process_turnstile_status [of "Some ''https://example.com''" None plain_server calm_env
      None None] no
  have a: "process_turnstile plain_server calm_env (Some ''https://example.com'') None None None
     = (Returns ([(''status'', PStr ''error''),
                  (''error'', PStr ''Both 'url' and 'sitekey' are required'')], 400),
        plain_server)"
    by blast
  from process_turnstile_status [of "Some ''https://example.com''" "Some ''0x4AAAAAAAB''"
      plain_server calm_env None None] yes
    timeout_plain [of "''https://example.com''" "''0x4AAAAAAAB''"]
  have b: "process_turnstile plain_server calm_env (Some ''https://example.com'')
       (Some ''0x4AAAAAAAB'') None None
     = (Returns ([(''status'', PStr ''error''),
                  (''error'', PStr ''Failed to get Turnstile token after 15 attempts''),
                  (''time'', PFloat 30)], 422),
        plain_server)"
    unfolding args by auto
  from process_turnstile_status [of "Some ''https://example.com''" "Some ''0x4AAAAAAAB''"
      plain_server solved_env None None] yes success_plain
  have c: "process_turnstile plain_server solved_env (Some ''https://example.com'')
       (Some ''0x4AAAAAAAB'') None None
     = (Returns ([(''status'', PStr ''success''), (''token'', PStr ''XXXX.DUMMY.TOKEN''),
                  (''time'', PFloat 1)], 200),
        plain_server)"
    unfolding args by auto
  from process_turnstile_status [of "Some ''https://example.com''" "Some ''0x4AAAAAAAB''"
      example_server bad_proxy_env None None] yes
    raise_bad_proxy [of "''https://example.com''" "''0x4AAAAAAAB''"]
  have d: "process_turnstile example_server bad_proxy_env (Some ''https://example.com'')
       (Some ''0x4AAAAAAAB'') None None
     = (Returns ([(''status'', PStr ''error''), (''error'', PStr ''Invalid proxy format'')], 500),
        example_server\<lparr>srv_browser_pool := []\<rparr>)"
    unfolding args by auto
  from a b c d show ?thesis by blast
qed

text \<open>Claim C8 as it is written fails on \<^verbatim>\<open>GET /turnstile?url=&sitekey=0x4AAAAAAAB\<close>:
  \<open>url\<close> is not missing, the solve routine would return an error result (status 422), and
  the answer is 400.\<close>

theorem process_turnstile_counterexample:
  "Some [] \<noteq> (None :: string option) \<and> Some ''0x4AAAAAAAB'' \<noteq> None
   \<and> process_turnstile plain_server calm_env (Some []) (Some ''0x4AAAAAAAB'') None None
       = (Returns ([(''status'', PStr ''error''),
                    (''error'', PStr ''Both 'url' and 'sitekey' are required'')], 400),
          plain_server)
   \<and> solve_turnstile plain_server calm_env [] ''0x4AAAAAAAB'' None None
       = (Returns [(''status'', PStr ''error''),
                   (''error'', PStr ''Failed to get Turnstile token after 15 attempts''),
                   (''time'', PFloat 30)],
          plain_server)"
  by (simp add: timeout_plain) (simp add: process_turnstile_def truthy_def required_error_def)

end
